theory Spec2Isabelle
  imports Main "HOL-Library.AList"
begin

section \<open>The module lifecycle engine of pkg/modules\<close>

text \<open>
  The development follows \<^verbatim>\<open>pkg/modules/modules.go\<close>, \<^verbatim>\<open>pkg/modules/listener.go\<close> and
  \<^verbatim>\<open>pkg/modules/dependencies.go\<close>, with the signal handler of
  \<^verbatim>\<open>pkg/cmd/grafana-server/commands/cli.go\<close>. Go errors are values, calls into the
  service manager are recorded as events, and a call that may block for ever has an
  outcome of its own.
\<close>

subsection \<open>Errors\<close>

text \<open>
  A Go \<^verbatim>\<open>error\<close> value. \<open>ErrStopProcess\<close> is the sentinel \<^verbatim>\<open>modules.ErrStopProcess\<close>,
  \<open>DeadlineExceeded\<close> and \<open>Canceled\<close> are the two errors of a finished context,
  \<open>ErrorString\<close> is \<^verbatim>\<open>errors.New(msg)\<close> and \<open>Wrap msg e\<close> is an error with message
  \<open>msg\<close> whose \<^verbatim>\<open>Unwrap\<close> gives \<open>e\<close>, as \<^verbatim>\<open>fmt.Errorf("...%w", e)\<close> builds. The last
  four are the failures of the module registry.
\<close>

datatype error =
    ErrStopProcess
  | DeadlineExceeded
  | Canceled
  | ErrorString string
  | Wrap string error
  | NoSuchModule string
  | UnknownModuleError string
  | CycleError "string list"
  | ServiceConstructionError string error

text \<open>\<^verbatim>\<open>errors.Is(err, target)\<close>: \<open>err\<close> or an error on its \<^verbatim>\<open>Unwrap\<close> chain equals \<open>target\<close>.\<close>

fun errors_Is :: "error \<Rightarrow> error \<Rightarrow> bool" where
  "errors_Is (Wrap msg e) target = (Wrap msg e = target \<or> errors_Is e target)"
| "errors_Is e target = (e = target)"

text \<open>The same for an \<open>err\<close> that may be nil: nil is no error, so it is no sentinel.\<close>

definition errors_Is_nil :: "error option \<Rightarrow> error \<Rightarrow> bool" where
  "errors_Is_nil err target = (case err of None \<Rightarrow> False | Some e \<Rightarrow> errors_Is e target)"

text \<open>The \<^verbatim>\<open>Error()\<close> method: the message of an error.\<close>

fun err_Error :: "error \<Rightarrow> string" where
  "err_Error ErrStopProcess = ''stop process''"
| "err_Error DeadlineExceeded = ''context deadline exceeded''"
| "err_Error Canceled = ''context canceled''"
| "err_Error (ErrorString msg) = msg"
| "err_Error (Wrap msg e) = msg"
| "err_Error (NoSuchModule n) = ''no such module: '' @ n"
| "err_Error (UnknownModuleError n) = ''unrecognised module name: '' @ n"
| "err_Error (CycleError p) = ''dependency cycle: '' @ concat p"
| "err_Error (ServiceConstructionError n e) = ''error initialising module: '' @ n"

subsection \<open>The static dependency table\<close>

text \<open>The module names of \<^verbatim>\<open>dependencies.go\<close>.\<close>

definition All :: string where "All = ''all''"
definition Core :: string where "Core = ''core''"
definition MemberlistKV :: string where "MemberlistKV = ''memberlistkv''"
definition GrafanaAPIServer :: string where "GrafanaAPIServer = ''grafana-apiserver''"
definition SearchServerRing :: string where "SearchServerRing = ''search-server-ring''"
definition SearchServerDistributor :: string where
  "SearchServerDistributor = ''search-server-distributor''"
definition StorageServer :: string where "StorageServer = ''storage-server''"
definition ZanzanaServer :: string where "ZanzanaServer = ''zanzana-server''"
definition InstrumentationServer :: string where
  "InstrumentationServer = ''instrumentation-server''"
definition FrontendServer :: string where "FrontendServer = ''frontend-server''"
definition OperatorServer :: string where "OperatorServer = ''operator''"

text \<open>
  \<^verbatim>\<open>var dependencyMap = map[string][]string{...}\<close>: a Go map literal, written as the
  list of its entries in the order of the source. A \<^verbatim>\<open>range\<close> over the Go map visits the
  entries in an order the language leaves open, so every function below that ranges over a
  table takes the entries as a list and is proved for every list.
\<close>

definition dependencyMap :: "(string \<times> string list) list" where
  "dependencyMap =
    [(MemberlistKV, [InstrumentationServer]),
     (SearchServerRing, [InstrumentationServer, MemberlistKV]),
     (GrafanaAPIServer, [InstrumentationServer]),
     (StorageServer, [InstrumentationServer, SearchServerRing]),
     (ZanzanaServer, [InstrumentationServer]),
     (SearchServerDistributor, [InstrumentationServer, MemberlistKV, SearchServerRing]),
     (Core, []),
     (All, [Core]),
     (FrontendServer, []),
     (OperatorServer, [InstrumentationServer])]"

text \<open>The edges (module, required module) of a table, and those with both ends in a set.\<close>

definition edge_list :: "(string \<times> string list) list \<Rightarrow> (string \<times> string) list" where
  "edge_list tbl = concat (map (\<lambda>(m, ds). map (Pair m) ds) tbl)"

definition edges_within :: "string set \<Rightarrow> (string \<times> string list) list \<Rightarrow> (string \<times> string) set" where
  "edges_within S tbl = {(m, d). (m, d) \<in> set (edge_list tbl) \<and> m \<in> S \<and> d \<in> S}"

text \<open>
  A height for the modules of the table: every module lies strictly above the modules it
  requires.
\<close>

definition height :: "string \<Rightarrow> nat" where
  "height n =
    (if n = MemberlistKV then 1
     else if n = SearchServerRing then 2
     else if n = StorageServer then 3
     else if n = SearchServerDistributor then 3
     else if n = GrafanaAPIServer then 1
     else if n = ZanzanaServer then 1
     else if n = All then 1
     else if n = OperatorServer then 1
     else 0)"

subsection \<open>Contexts and blocking calls\<close>

text \<open>
  A \<^verbatim>\<open>context.Context\<close>, with time counted in seconds. \<open>Background\<close> is
  \<^verbatim>\<open>context.Background()\<close>; \<open>WithDeadline parent d\<close> is done at time \<open>d\<close> at the latest;
  \<open>WithCancel parent c\<close> is done when its cancel function is called, at time \<open>c\<close> when
  that happens at all. A child is done as soon as its parent is.
\<close>

datatype "context" =
    Background
  | WithDeadline "context" nat
  | WithCancel "context" "nat option"

text \<open>
  When \<^verbatim>\<open>ctx.Done()\<close> is closed, and what \<^verbatim>\<open>ctx.Err()\<close> is from then on; \<open>None\<close> for
  a context that is never done.
\<close>

fun done_at :: "context \<Rightarrow> (nat \<times> error) option" where
  "done_at Background = None"
| "done_at (WithDeadline parent d) =
    (case done_at parent of
       None \<Rightarrow> Some (d, DeadlineExceeded)
     | Some (t, e) \<Rightarrow> if t \<le> d then Some (t, e) else Some (d, DeadlineExceeded))"
| "done_at (WithCancel parent c) =
    (case done_at parent of
       None \<Rightarrow> map_option (\<lambda>t. (t, Canceled)) c
     | Some (t, e) \<Rightarrow>
        (case c of
           None \<Rightarrow> Some (t, e)
         | Some t' \<Rightarrow> if t \<le> t' then Some (t, e) else Some (t', Canceled)))"

text \<open>\<^verbatim>\<open>context.WithTimeout(parent, timeout)\<close>, called at time \<open>now\<close>.\<close>

definition WithTimeout :: "nat \<Rightarrow> context \<Rightarrow> nat \<Rightarrow> context" where
  "WithTimeout now parent timeout = WithDeadline parent (now + timeout)"

text \<open>
  How a call ends: it returns a value, it blocks for ever, or it panics (a nil
  dereference).
\<close>

datatype 'a outcome = Returns 'a | Blocks | Panics

subsection \<open>Services and the world around the engine\<close>

text \<open>
  A \<^verbatim>\<open>services.Service\<close> value is a reference to a service object; \<^verbatim>\<open>s == service\<close>
  compares references.
\<close>

type_synonym Service = nat

text \<open>
  What the services and their manager do is not decided by the engine; it is given by a
  world: the failure cause \<^verbatim>\<open>FailureCase()\<close> reports for each service once it has ended
  (\<open>None\<close> is Go's nil), the services \<^verbatim>\<open>ServicesByState()[services.Failed]\<close> lists at that
  point, the time at which all services have reached a terminal state (\<open>None\<close> when they
  never all do), and the errors, if any, of constructing and of starting the manager. The
  stopping time is the one of the run at hand: what stop requests and cancelled contexts do
  to the services is part of it.
\<close>

record world =
  FailureCase :: "Service \<Rightarrow> error option"
  ServicesByState_Failed :: "Service list"
  stopped_at :: "nat option"
  NewManager_err :: "Service list \<Rightarrow> error option"
  StartAsync_err :: "error option"

text \<open>
  Modelled from the spec: \<^verbatim>\<open>AwaitStopped\<close> of the service manager, a type of the
  imported package \<^verbatim>\<open>dskit/services\<close> whose source is not part of the repository's files.
  "Blocks until every service has reached a terminal state, or until ctx is canceled;
  in the latter case returns a timeout error". The call returns nil when the services stop
  first, the context's error when the context is done first, and never returns when neither
  happens.
\<close>

definition AwaitStopped :: "world \<Rightarrow> context \<Rightarrow> error option outcome" where
  "AwaitStopped w ctx =
    (case (stopped_at w, done_at ctx) of
       (None, None) \<Rightarrow> Blocks
     | (None, Some (d, e)) \<Rightarrow> Returns (Some e)
     | (Some t, None) \<Rightarrow> Returns None
     | (Some t, Some (d, e)) \<Rightarrow> if d < t then Returns (Some e) else Returns None)"

subsection \<open>Events\<close>

text \<open>
  The calls the engine makes into the module manager and the service manager, the
  factories invoked, and the lines it logs, in the order they happen.
\<close>

datatype level = LvlDebug | LvlInfo | LvlWarn | LvlError

datatype event =
    AddDependency_call string "string list"
  | Factory_call string
  | NewManager_call "Service list"
  | AddListener_call
  | StartAsync_call "context"
  | StopAsync_call
  | AwaitStopped_call "context"
  | Shutdown_call "context" string
  | Log level string "(string \<times> string) list"
  | Stderr string

subsection \<open>The module manager\<close>

text \<open>
  The engine keeps its modules in a module manager of the imported package
  \<^verbatim>\<open>dskit/modules\<close>; the repository's files hold the calls the engine makes to it, not
  its source. A factory \<^verbatim>\<open>initFn func() (services.Service, error)\<close> is
  represented by what a call of it yields.
\<close>

type_synonym initFn = "error + Service"

text \<open>
  Modelled from the spec: the entry of the module registry, "{name, factory, visible}", with
  the required modules of the dependency table, "mapping module \<rightarrow> ordered set of required
  module names".
\<close>

record module =
  initFn :: initFn
  deps :: "string list"
  userVisible :: bool

type_synonym moduleManager = "(string \<times> module) list"

text \<open>\<^verbatim>\<open>modules.NewManager(logger)\<close>: a manager with no module.\<close>

definition modules_NewManager :: moduleManager where
  "modules_NewManager = []"

text \<open>
  The option \<^verbatim>\<open>modules.UserInvisibleModule\<close> that \<^verbatim>\<open>RegisterInvisibleModule\<close> passes on.
\<close>

definition UserInvisibleModule :: "module \<Rightarrow> module" where
  "UserInvisibleModule mo = mo\<lparr>userVisible := False\<rparr>"

text \<open>
  Modelled from the spec: \<^verbatim>\<open>RegisterModule\<close> of the module manager, whose source is
  missing: the registry "maps a module name to a factory function" and "tracks visibility".
  The engine calls it as a statement and has no result itself (modules.go, lines 155 to
  166), so the call is a total update of the mapping, as an assignment to a Go map is: the
  entry stored under the name is the one just registered.
\<close>

definition Manager_RegisterModule ::
  "string \<Rightarrow> initFn \<Rightarrow> (module \<Rightarrow> module) list \<Rightarrow> moduleManager \<Rightarrow> moduleManager" where
  "Manager_RegisterModule name fn options mm =
    AList.update name
      (fold (\<lambda>opt mo. opt mo) options \<lparr>initFn = fn, deps = [], userVisible = True\<rparr>) mm"

text \<open>
  Modelled from the spec: \<^verbatim>\<open>IsModuleRegistered\<close> of the module manager, whose source is
  missing: "currently registered", the name has an entry.
\<close>

definition Manager_IsModuleRegistered :: "string \<Rightarrow> moduleManager \<Rightarrow> bool" where
  "Manager_IsModuleRegistered name mm = (map_of mm name \<noteq> None)"

text \<open>
  Modelled from the spec: \<^verbatim>\<open>AddDependency\<close> of the module manager, whose source is
  missing: "register its dependency edges into the graph". The call can return an error
  (modules.go, line 68); the one failure is a module that has no entry.
\<close>

definition Manager_AddDependency ::
  "string \<Rightarrow> string list \<Rightarrow> moduleManager \<Rightarrow> error + moduleManager" where
  "Manager_AddDependency name dependsOn mm =
    (case map_of mm name of
       None \<Rightarrow> Inl (NoSuchModule name)
     | Some mo \<Rightarrow> Inr (AList.update name (mo\<lparr>deps := deps mo @ dependsOn\<rparr>) mm))"

text \<open>
  Modelled from the spec: the resolution inside \<^verbatim>\<open>InitModuleServices\<close>, whose source is
  missing. \<open>Resolve\<close> "expands each target to its transitive dependency
  closure, restricted to modules that are actually registered, and fails with
  UnknownModuleError if a target itself is unregistered (but not if an edge's destination is
  unregistered: edges to unregistered modules are dropped)", and "fails with CycleError if
  the closure contains a cycle". The closure is reached by adding the required modules of
  the modules found so far, once for every entry of the manager; the cycle error carries the
  modules of the closure that require themselves.
\<close>

definition required :: "moduleManager \<Rightarrow> string \<Rightarrow> string list" where
  "required mm n =
    (case map_of mm n of
       None \<Rightarrow> []
     | Some mo \<Rightarrow> filter (\<lambda>d. Manager_IsModuleRegistered d mm) (deps mo))"

fun expand :: "nat \<Rightarrow> moduleManager \<Rightarrow> string list \<Rightarrow> string list" where
  "expand 0 mm ns = ns"
| "expand (Suc k) mm ns = expand k mm (remdups (ns @ concat (map (required mm) ns)))"

definition closure :: "moduleManager \<Rightarrow> string list \<Rightarrow> string list" where
  "closure mm ns = expand (length mm) mm (remdups ns)"

definition on_cycle :: "moduleManager \<Rightarrow> string \<Rightarrow> bool" where
  "on_cycle mm n = (n \<in> set (closure mm (required mm n)))"

definition Resolve :: "moduleManager \<Rightarrow> string list \<Rightarrow> error + string list" where
  "Resolve mm ts =
    (case find (\<lambda>t. \<not> Manager_IsModuleRegistered t mm) ts of
       Some t \<Rightarrow> Inl (UnknownModuleError t)
     | None \<Rightarrow>
        (case filter (on_cycle mm) (closure mm ts) of
           [] \<Rightarrow> Inr (closure mm ts)
         | c # cs \<Rightarrow> Inl (CycleError (c # cs))))"

text \<open>
  Modelled from the spec: the construction of the services inside
  \<^verbatim>\<open>InitModuleServices\<close>, whose source is missing. The registry "instantiates one Service
  per required module (factory invoked once, lazily, only for modules actually needed)"; "a
  factory returns an error: aborts Run before any service starts". Each invocation of a
  factory is an event. A factory that yields neither a service nor an error is not
  described and is not modelled.
\<close>

fun instantiate ::
  "moduleManager \<Rightarrow> string list \<Rightarrow> event list \<times> (error + (string \<times> Service) list)" where
  "instantiate mm [] = ([], Inr [])"
| "instantiate mm (n # ns) =
    (case map_of mm n of
       None \<Rightarrow> ([], Inl (UnknownModuleError n))
     | Some mo \<Rightarrow>
        (case initFn mo of
           Inl e \<Rightarrow> ([Factory_call n], Inl (ServiceConstructionError n e))
         | Inr s \<Rightarrow>
            (case instantiate mm ns of
               (evs, Inl e) \<Rightarrow> (Factory_call n # evs, Inl e)
             | (evs, Inr sm) \<Rightarrow> (Factory_call n # evs, Inr ((n, s) # sm)))))"

text \<open>
  Modelled from the spec: \<^verbatim>\<open>InitModuleServices\<close> of the module manager, whose source is
  missing: "resolve the configured target list into a concrete ServiceSet": the resolution,
  then one service for every module resolved.
\<close>

definition Manager_InitModuleServices ::
  "moduleManager \<Rightarrow> string list \<Rightarrow> event list \<times> (error + (string \<times> Service) list)" where
  "Manager_InitModuleServices mm ts =
    (case Resolve mm ts of
       Inl e \<Rightarrow> ([], Inl e)
     | Inr ns \<Rightarrow> instantiate mm ns)"

subsection \<open>The engine: modules.go\<close>

text \<open>
  \<^verbatim>\<open>type service struct\<close>. The logger is left out: what is logged is an event. The
  service manager, nil until \<^verbatim>\<open>Run\<close> constructs it, is known by the services it manages.
\<close>

record service =
  targets :: "string list"
  moduleManager :: moduleManager
  serviceManager :: "Service list option"
  serviceMap :: "(string \<times> Service) list"

definition New :: "string list \<Rightarrow> service" where
  "New ts =
    \<lparr>targets = ts, moduleManager = modules_NewManager, serviceManager = None, serviceMap = []\<rparr>"

text \<open>\<^verbatim>\<open>strings.Join(elems, sep)\<close>.\<close>

fun strings_Join :: "string list \<Rightarrow> string \<Rightarrow> string" where
  "strings_Join [] sep = []"
| "strings_Join [x] sep = x"
| "strings_Join (x # y # zs) sep = x @ sep @ strings_Join (y # zs) sep"

text \<open>
  Lines 62 to 71 of \<^verbatim>\<open>Run\<close>: the range over the dependency table. An entry whose module is
  not registered is passed over; the edges of any other entry are added, and an error of
  \<^verbatim>\<open>AddDependency\<close> ends \<^verbatim>\<open>Run\<close>. The manager is updated in place, so it is returned
  in either case.
\<close>

fun add_dependencies ::
  "(string \<times> string list) list \<Rightarrow> moduleManager \<Rightarrow> event list \<times> error option \<times> moduleManager" where
  "add_dependencies [] mm = ([], None, mm)"
| "add_dependencies ((md, ts) # rest) mm =
    (if \<not> Manager_IsModuleRegistered md mm then add_dependencies rest mm
     else
       (case Manager_AddDependency md ts mm of
          Inl err \<Rightarrow> ([AddDependency_call md ts], Some err, mm)
        | Inr mm' \<Rightarrow>
           (case add_dependencies rest mm' of
              (evs, r, mm'') \<Rightarrow> (AddDependency_call md ts # evs, r, mm''))))"

text \<open>
  Lines 128 to 137 of \<^verbatim>\<open>Run\<close>: the first failure cause that is not
  \<^verbatim>\<open>ErrStopProcess\<close>. \<^verbatim>\<open>errors.Is(nil, target)\<close> is false, so a nil cause is returned
  as it is.
\<close>

fun first_failure :: "world \<Rightarrow> Service list \<Rightarrow> error option" where
  "first_failure w [] = None"
| "first_failure w (f # fs) =
    (if \<not> errors_Is_nil (FailureCase w f) ErrStopProcess then FailureCase w f
     else first_failure w fs)"

text \<open>\<^verbatim>\<open><-ctx.Done()\<close>: returns when the context is done, never otherwise.\<close>

definition wait_Done :: "context \<Rightarrow> unit outcome" where
  "wait_Done ctx = (case done_at ctx of None \<Rightarrow> Blocks | Some d \<Rightarrow> Returns ())"

text \<open>
  \<^verbatim>\<open>func (m *service) Run(ctx context.Context) error\<close>. The result is the events of the
  call, how it ends, and the engine after it.
\<close>

definition Run :: "world \<Rightarrow> context \<Rightarrow> service \<Rightarrow> event list \<times> error option outcome \<times> service" where
  "Run w ctx m =
    (case add_dependencies dependencyMap (moduleManager m) of
       (evs1, Some err, mm) \<Rightarrow> (evs1, Returns (Some err), m\<lparr>moduleManager := mm\<rparr>)
     | (evs1, None, mm) \<Rightarrow>
        (case Manager_InitModuleServices mm (targets m) of
           (evs2, Inl err) \<Rightarrow>
             (evs1 @ evs2, Returns (Some err), m\<lparr>moduleManager := mm, serviceMap := []\<rparr>)
         | (evs2, Inr sm) \<Rightarrow>
             if length sm = 0
             then (evs1 @ evs2, Returns None, m\<lparr>moduleManager := mm, serviceMap := sm\<rparr>)
             else
               (let svcs = map snd sm;
                    evs3 = evs1 @ evs2 @ [NewManager_call svcs]
                in case NewManager_err w svcs of
                     Some err \<Rightarrow>
                       (evs3, Returns (Some err),
                        m\<lparr>moduleManager := mm, serviceMap := sm, serviceManager := None\<rparr>)
                   | None \<Rightarrow>
                       (let m' = m\<lparr>moduleManager := mm, serviceMap := sm,
                                   serviceManager := Some svcs\<rparr>
                        in if length sm = 0
                           then (evs3 @ [Log LvlWarn ''No modules registered...'' []],
                                 (case wait_Done ctx of
                                    Returns u \<Rightarrow> Returns None
                                  | Blocks \<Rightarrow> Blocks
                                  | Panics \<Rightarrow> Panics), m')
                           else
                             (let evs4 = evs3 @
                                    [AddListener_call,
                                     Log LvlDebug ''Starting module service manager''
                                       [(''targets'', strings_Join (targets m) '','')],
                                     StartAsync_call ctx]
                              in case StartAsync_err w of
                                   Some err \<Rightarrow> (evs4, Returns (Some err), m')
                                 | None \<Rightarrow>
                                    (case AwaitStopped w Background of
                                       Returns (Some err) \<Rightarrow>
                                         (evs4 @ [AwaitStopped_call Background,
                                            Log LvlError ''Failed to stop module service manager''
                                              [(''error'', err_Error err)]],
                                          Returns (Some err), m')
                                     | Returns None \<Rightarrow>
                                         (evs4 @ [AwaitStopped_call Background],
                                          Returns (first_failure w (ServicesByState_Failed w)), m')
                                     | Blocks \<Rightarrow> (evs4 @ [AwaitStopped_call Background], Blocks, m')
                                     | Panics \<Rightarrow>
                                         (evs4 @ [AwaitStopped_call Background], Panics, m')))))))"

text \<open>
  \<^verbatim>\<open>func (m *service) Shutdown(ctx context.Context, reason string) error\<close>. The engine
  is not changed by the call.
\<close>

definition Shutdown :: "world \<Rightarrow> context \<Rightarrow> string \<Rightarrow> service \<Rightarrow> event list \<times> error option outcome" where
  "Shutdown w ctx reason m =
    (case serviceManager m of
       None \<Rightarrow> ([Log LvlDebug ''No modules registered, nothing to stop...'' []], Returns None)
     | Some mgr \<Rightarrow>
        ([StopAsync_call,
          Log LvlInfo ''Awaiting services to be stopped...'' [(''reason'', reason)],
          AwaitStopped_call ctx],
         AwaitStopped w ctx))"

text \<open>\<^verbatim>\<open>RegisterModule\<close> and \<^verbatim>\<open>RegisterInvisibleModule\<close>: neither has a result.\<close>

definition RegisterModule :: "string \<Rightarrow> initFn \<Rightarrow> service \<Rightarrow> service" where
  "RegisterModule name fn m =
    m\<lparr>moduleManager := Manager_RegisterModule name fn [] (moduleManager m)\<rparr>"

definition RegisterInvisibleModule :: "string \<Rightarrow> initFn \<Rightarrow> service \<Rightarrow> service" where
  "RegisterInvisibleModule name fn m =
    m\<lparr>moduleManager :=
        Manager_RegisterModule name fn [UserInvisibleModule] (moduleManager m)\<rparr>"

text \<open>
  Modelled from the spec: \<^verbatim>\<open>stringsContain\<close>, a helper of the package whose source is
  missing: a "pure lookup against the original target list".
\<close>

fun stringsContain :: "string list \<Rightarrow> string \<Rightarrow> bool" where
  "stringsContain [] search = False"
| "stringsContain (v # vs) search = (if search = v then True else stringsContain vs search)"

definition IsModuleEnabled :: "string \<Rightarrow> service \<Rightarrow> bool" where
  "IsModuleEnabled name m = stringsContain (targets m) name"

subsection \<open>The listener: listener.go\<close>

text \<open>
  The range over \<^verbatim>\<open>l.service.serviceMap\<close> in \<^verbatim>\<open>Failure\<close>, with the line logged after it
  when no entry holds the failed service.
\<close>

fun log_failed :: "(string \<times> Service) list \<Rightarrow> Service \<Rightarrow> error \<Rightarrow> event" where
  "log_failed [] svc cause =
    Log LvlError ''Module failed'' [(''module'', ''unknown''), (''err'', err_Error cause)]"
| "log_failed ((module, s) # rest) svc cause =
    (if s = svc
     then (if errors_Is cause ErrStopProcess
           then Log LvlInfo ''Received stop signal via return error''
                  [(''module'', module), (''err'', err_Error cause)]
           else Log LvlError ''Module failed'' [(''module'', module), (''err'', err_Error cause)])
     else log_failed rest svc cause)"

text \<open>
  \<^verbatim>\<open>func (l *serviceListener) Failure(service services.Service)\<close>, for the listener of the
  engine \<open>m\<close>. \<^verbatim>\<open>service.FailureCase().Error()\<close> panics on a nil cause.
\<close>

definition Failure :: "world \<Rightarrow> service \<Rightarrow> Service \<Rightarrow> event list \<times> unit outcome" where
  "Failure w m svc =
    (case FailureCase w svc of
       None \<Rightarrow> ([], Panics)
     | Some cause \<Rightarrow>
        (case Shutdown w Background (err_Error cause) m of
           (evs, Returns r) \<Rightarrow>
             (Shutdown_call Background (err_Error cause) # evs @
                (case r of
                   Some err \<Rightarrow> [Log LvlError ''Failed to stop all modules'' [(''err'', err_Error err)]]
                 | None \<Rightarrow> []) @
                [log_failed (serviceMap m) svc cause],
              Returns ())
         | (evs, Blocks) \<Rightarrow> (Shutdown_call Background (err_Error cause) # evs, Blocks)
         | (evs, Panics) \<Rightarrow> (Shutdown_call Background (err_Error cause) # evs, Panics)))"

subsection \<open>The signal handler: cli.go\<close>

text \<open>
  The branch \<^verbatim>\<open>case sig := <-signalChan\<close> of \<^verbatim>\<open>listenToSystemSignals\<close>, taken at time
  \<open>now\<close> for the signal named \<open>sig\<close>: a shutdown with a timeout of 30 seconds.
\<close>

definition on_signal :: "world \<Rightarrow> nat \<Rightarrow> context \<Rightarrow> string \<Rightarrow> service \<Rightarrow> event list \<times> unit outcome" where
  "on_signal w now ctx sig s =
    (let ctx' = WithTimeout now ctx 30;
         reason = ''System signal: '' @ sig
     in case Shutdown w ctx' reason s of
          (evs, Returns (Some err)) \<Rightarrow>
            (Shutdown_call ctx' reason # evs @
               [Stderr ''Timed out waiting for server to shut down''], Returns ())
        | (evs, Returns None) \<Rightarrow> (Shutdown_call ctx' reason # evs, Returns ())
        | (evs, Blocks) \<Rightarrow> (Shutdown_call ctx' reason # evs, Blocks)
        | (evs, Panics) \<Rightarrow> (Shutdown_call ctx' reason # evs, Panics))"

subsection \<open>A running example\<close>

text \<open>
  An engine asked for the search server ring, with the three modules the ring needs
  registered; and a world in which the memberlist service (2) ends with the sentinel and the
  ring (3) with a lookup failure, all services having stopped at time 50. Service 7 belongs
  to no module of the engine; it has ended with the sentinel.
\<close>

definition example_engine :: service where
  "example_engine =
    RegisterModule SearchServerRing (Inr 3)
      (RegisterModule MemberlistKV (Inr 2)
        (RegisterInvisibleModule InstrumentationServer (Inr 1) (New [SearchServerRing])))"

definition example_world :: world where
  "example_world =
    \<lparr>FailureCase = (\<lambda>s. if s = 3 then Some (ErrorString ''dns lookup failed'')
                         else if s = 2 \<or> s = 7 then Some ErrStopProcess else None),
     ServicesByState_Failed = [2, 3],
     stopped_at = Some 50,
     NewManager_err = (\<lambda>svcs. None),
     StartAsync_err = None\<rparr>"

text \<open>The engine of the example once \<^verbatim>\<open>Run\<close> has set it up.\<close>

definition example_running :: service where
  "example_running = snd (snd (Run example_world Background example_engine))"

text \<open>A world like the one of the example whose services never all stop.\<close>

definition example_stuck :: world where
  "example_stuck = example_world\<lparr>stopped_at := None\<rparr>"

section \<open>Properties\<close>

subsection \<open>Auxiliary facts\<close>

lemmas module_names =
  All_def Core_def MemberlistKV_def GrafanaAPIServer_def SearchServerRing_def
  SearchServerDistributor_def StorageServer_def ZanzanaServer_def
  InstrumentationServer_def FrontendServer_def OperatorServer_def

lemma edges_descend:
  "list_all (\<lambda>(m, d). height d < height m) (edge_list dependencyMap)"
  by code_simp

lemma edge_height:
  "(m, d) \<in> set (edge_list dependencyMap) \<Longrightarrow> height d < height m"
  using edges_descend unfolding list_all_iff by blast

lemma done_at_WithDeadline: "\<exists>t e. done_at (WithDeadline parent d) = Some (t, e) \<and> t \<le> d"
  by (auto split: option.splits)

lemma AwaitStopped_Background:
  "AwaitStopped w Background = (case stopped_at w of None \<Rightarrow> Blocks | Some t \<Rightarrow> Returns None)"
  by (simp add: AwaitStopped_def split: option.splits)





lemma add_dependencies_events:
  "e \<in> set (fst (add_dependencies tbl mm)) \<Longrightarrow> \<exists>md ts. e = AddDependency_call md ts"
  by (induction tbl mm rule: add_dependencies.induct)
     (auto split: sum.splits prod.splits if_splits)

lemma add_dependencies_eventsD:
  "add_dependencies tbl mm = (evs, r, mm') \<Longrightarrow> e \<in> set evs \<Longrightarrow>
     \<exists>md ts. e = AddDependency_call md ts"
  using add_dependencies_events [of e tbl mm] by simp


lemma instantiate_events:
  "e \<in> set (fst (instantiate mm ns)) \<Longrightarrow> \<exists>n. e = Factory_call n"
  by (induction mm ns rule: instantiate.induct)
     (auto split: sum.splits prod.splits option.splits)

lemma InitModuleServices_events:
  "e \<in> set (fst (Manager_InitModuleServices mm ts)) \<Longrightarrow> \<exists>n. e = Factory_call n"
  by (auto simp: Manager_InitModuleServices_def dest: instantiate_events split: sum.splits)

lemma InitModuleServices_eventsD:
  "Manager_InitModuleServices mm ts = (evs, r) \<Longrightarrow> e \<in> set evs \<Longrightarrow> \<exists>n. e = Factory_call n"
  using InitModuleServices_events [of e mm ts] by simp


text \<open>The scan of the failed services.\<close>

lemma first_failure_find:
  "first_failure w fs =
     (case find (\<lambda>f. \<not> errors_Is_nil (FailureCase w f) ErrStopProcess) fs of
        None \<Rightarrow> None | Some f \<Rightarrow> FailureCase w f)"
  by (induction fs) auto

lemma first_failure_not_sentinel:
  "\<not> errors_Is_nil (first_failure w fs) ErrStopProcess"
  by (induction fs) (auto simp: errors_Is_nil_def)

lemma first_failure_all_graceful:
  "\<forall>f\<in>set fs. errors_Is_nil (FailureCase w f) ErrStopProcess \<Longrightarrow> first_failure w fs = None"
  by (induction fs) auto


text \<open>
  Once \<^verbatim>\<open>Run\<close> has called \<^verbatim>\<open>AwaitStopped\<close>, the call was made with the background
  context, the service manager is in place, and how \<^verbatim>\<open>Run\<close> ends is decided by the
  services alone.
\<close>

lemma Run_awaited:
  assumes "AwaitStopped_call c \<in> set (fst (Run w ctx m))"
  shows "c = Background \<and>
         fst (snd (Run w ctx m)) =
           (case stopped_at w of None \<Rightarrow> Blocks
            | Some t \<Rightarrow> Returns (first_failure w (ServicesByState_Failed w)))"
  using assms
  by (auto simp: Run_def Let_def AwaitStopped_Background
      dest: add_dependencies_eventsD InitModuleServices_eventsD
      split: prod.splits option.splits sum.splits if_splits outcome.splits)

lemma Run_serviceManager:
  "AwaitStopped_call c \<in> set (fst (Run w ctx m)) \<Longrightarrow>
     serviceManager (snd (snd (Run w ctx m))) \<noteq> None"
  by (auto simp: Run_def Let_def
      dest: add_dependencies_eventsD InitModuleServices_eventsD
      split: prod.splits option.splits sum.splits if_splits outcome.splits)

lemma Run_outcome_any_context:
  "fst (snd (Run w ctx' m)) = fst (snd (Run w ctx m))"
  by (auto simp: Run_def Let_def split: prod.splits option.splits sum.splits outcome.splits)

text \<open>The two ways of \<^verbatim>\<open>Shutdown\<close>.\<close>

lemma Shutdown_with_manager:
  "serviceManager m \<noteq> None \<Longrightarrow>
     Shutdown w ctx reason m =
       ([StopAsync_call, Log LvlInfo ''Awaiting services to be stopped...'' [(''reason'', reason)],
         AwaitStopped_call ctx], AwaitStopped w ctx)"
  by (auto simp: Shutdown_def)

lemma Shutdown_events:
  "Shutdown w ctx reason m = (evs, r) \<Longrightarrow>
     (\<forall>c. AwaitStopped_call c \<in> set evs \<longrightarrow> c = ctx) \<and> (\<forall>c x. Shutdown_call c x \<notin> set evs)"
  by (auto simp: Shutdown_def split: option.splits)


lemma log_failed_is_Log: "\<exists>l msg fs. log_failed sm svc cause = Log l msg fs"
  by (induction sm) auto

subsection \<open>What Run returns\<close>

text \<open>
  C1. When \<^verbatim>\<open>Run\<close> has awaited the services and returns, it returns the failure cause of
  the first service in the Failed state whose cause is not the sentinel \<^verbatim>\<open>ErrStopProcess\<close>
  (in the sense of \<^verbatim>\<open>errors.Is\<close>). What it returns is never the sentinel, and it is nil when
  no service failed or every failed service failed with the sentinel.
\<close>

theorem Run_returns_first_non_graceful_failure:
  assumes awaited: "AwaitStopped_call Background \<in> set (fst (Run w ctx m))"
    and returned: "fst (snd (Run w ctx m)) = Returns r"
  shows "r = (case find (\<lambda>f. \<not> errors_Is_nil (FailureCase w f) ErrStopProcess)
                    (ServicesByState_Failed w) of
                None \<Rightarrow> None | Some f \<Rightarrow> FailureCase w f)
         \<and> \<not> errors_Is_nil r ErrStopProcess
         \<and> ((\<forall>f\<in>set (ServicesByState_Failed w).
               errors_Is_nil (FailureCase w f) ErrStopProcess) \<longrightarrow> r = None)"
proof -
  from Run_awaited [OF awaited] returned
  have r: "r = first_failure w (ServicesByState_Failed w)"
    by (auto split: option.splits)
  show ?thesis
    unfolding r
    using first_failure_find [of w "ServicesByState_Failed w"]
      first_failure_not_sentinel [of w "ServicesByState_Failed w"]
      first_failure_all_graceful [of "ServicesByState_Failed w" w]
    by blast
qed

theorem Run_returns_first_non_graceful_failure_witness:
  "AwaitStopped_call Background \<in> set (fst (Run example_world Background example_engine))
   \<and> fst (snd (Run example_world Background example_engine)) =
       Returns (Some (ErrorString ''dns lookup failed''))
   \<and> Some (ErrorString ''dns lookup failed'') =
       (case find (\<lambda>f. \<not> errors_Is_nil (FailureCase example_world f) ErrStopProcess)
              (ServicesByState_Failed example_world) of
          None \<Rightarrow> None | Some f \<Rightarrow> FailureCase example_world f)
   \<and> \<not> errors_Is_nil (Some (ErrorString ''dns lookup failed'')) ErrStopProcess"
proof -
  have h1: "AwaitStopped_call Background \<in> set (fst (Run example_world Background example_engine))"
    by code_simp
  have h2: "fst (snd (Run example_world Background example_engine)) =
       Returns (Some (ErrorString ''dns lookup failed''))"
    by code_simp
  from Run_returns_first_non_graceful_failure [OF h1 h2] h1 h2 show ?thesis by blast
qed

subsection \<open>Shutdown\<close>

text \<open>
  Against C2 as it is stated. On an engine whose service manager was never constructed,
  \<^verbatim>\<open>Shutdown\<close> logs a line and returns nil: it does not wait, although waiting with this
  context would have returned a timeout. And on a running engine a second call calls
  \<^verbatim>\<open>StopAsync\<close> again: two calls, two stop requests.
\<close>

theorem Shutdown_without_manager_counterexample:
  "serviceManager (New [SearchServerRing]) = None
   \<and> AwaitStopped example_stuck (WithDeadline Background 30) = Returns (Some DeadlineExceeded)
   \<and> Shutdown example_stuck (WithDeadline Background 30) ''signal'' (New [SearchServerRing]) =
       ([Log LvlDebug ''No modules registered, nothing to stop...'' []], Returns None)
   \<and> count_list
       (fst (Shutdown example_stuck (WithDeadline Background 30) ''signal'' example_running) @
        fst (Shutdown example_stuck (WithDeadline Background 30) ''again'' example_running))
       StopAsync_call = 2"
  by code_simp

text \<open>
  C2, amended. \<^verbatim>\<open>Shutdown\<close> leaves the engine as it is. When no service manager has been
  constructed it returns nil at once, without a stop request and without waiting. Otherwise
  every call, the first or a later one, calls \<^verbatim>\<open>StopAsync\<close> once, then waits on
  \<^verbatim>\<open>AwaitStopped(ctx)\<close> and returns its error.
\<close>

theorem Shutdown_stops_then_awaits:
  "(serviceManager m = None \<longrightarrow>
      Shutdown w ctx reason m =
        ([Log LvlDebug ''No modules registered, nothing to stop...'' []], Returns None))
   \<and> (serviceManager m \<noteq> None \<longrightarrow>
        snd (Shutdown w ctx reason m) = AwaitStopped w ctx
        \<and> count_list (fst (Shutdown w ctx reason m)) StopAsync_call = 1
        \<and> (\<exists>mid. fst (Shutdown w ctx reason m) = StopAsync_call # mid @ [AwaitStopped_call ctx]))"
  by (auto simp: Shutdown_def)

theorem Shutdown_stops_then_awaits_witness:
  "serviceManager example_running \<noteq> None
   \<and> snd (Shutdown example_stuck (WithDeadline Background 30) ''again'' example_running) =
       Returns (Some DeadlineExceeded)
   \<and> count_list (fst (Shutdown example_stuck (WithDeadline Background 30) ''again'' example_running))
       StopAsync_call = 1"
proof -
  have h: "serviceManager example_running \<noteq> None" by code_simp
  have a: "AwaitStopped example_stuck (WithDeadline Background 30) = Returns (Some DeadlineExceeded)"
    by code_simp
  from Shutdown_stops_then_awaits
    [of example_running example_stuck "WithDeadline Background 30" "''again''"] h a
  show ?thesis by simp
qed

subsection \<open>The failure callback\<close>




subsection \<open>Run waits without a timeout\<close>

text \<open>
  C4. \<^verbatim>\<open>Run\<close> waits for the services with the background context, which is never done,
  whatever context \<^verbatim>\<open>Run\<close> itself was given. So when a \<^verbatim>\<open>Shutdown\<close> call's context
  expires before the services have stopped, that call returns the context's error to its
  caller, while \<^verbatim>\<open>Run\<close> blocks as long as the services have not stopped and then returns
  what the scan of the failed services gives: the timeout does not reach it. For one and
  the same behaviour of the services, how \<^verbatim>\<open>Run\<close> ends does not depend on its context.
\<close>

theorem Run_await_has_no_timeout:
  assumes reached: "AwaitStopped_call Background \<in> set (fst (Run w ctx m))"
    and expires: "done_at sctx = Some (d, e)"
    and first: "\<forall>t. stopped_at w = Some t \<longrightarrow> d < t"
  shows "snd (Shutdown w sctx reason (snd (snd (Run w ctx m)))) = Returns (Some e)
       \<and> fst (snd (Run w ctx m)) =
           (case stopped_at w of None \<Rightarrow> Blocks
            | Some t \<Rightarrow> Returns (first_failure w (ServicesByState_Failed w)))
       \<and> (\<forall>c. AwaitStopped_call c \<in> set (fst (Run w ctx m)) \<longrightarrow> done_at c = None)
       \<and> (\<forall>ctx'. fst (snd (Run w ctx' m)) = fst (snd (Run w ctx m)))"
proof -
  have "AwaitStopped w sctx = Returns (Some e)"
    using expires first by (auto simp: AwaitStopped_def split: option.splits)
  then have a: "snd (Shutdown w sctx reason (snd (snd (Run w ctx m)))) = Returns (Some e)"
    using Shutdown_with_manager [OF Run_serviceManager [OF reached]] by simp
  have b: "\<forall>c. AwaitStopped_call c \<in> set (fst (Run w ctx m)) \<longrightarrow> done_at c = None"
    using Run_awaited by fastforce
  from a b Run_awaited [OF reached] Run_outcome_any_context [of w _ m ctx]
  show ?thesis by blast
qed

theorem Run_await_has_no_timeout_witness:
  "AwaitStopped_call Background \<in>
      set (fst (Run example_world (WithDeadline Background 20) example_engine))
   \<and> done_at (WithTimeout 10 Background 30) = Some (40, DeadlineExceeded)
   \<and> stopped_at example_world = Some 50
   \<and> snd (Shutdown example_world (WithTimeout 10 Background 30) ''System signal: interrupt''
            (snd (snd (Run example_world (WithDeadline Background 20) example_engine)))) =
       Returns (Some DeadlineExceeded)
   \<and> fst (snd (Run example_world (WithDeadline Background 20) example_engine)) =
       Returns (Some (ErrorString ''dns lookup failed''))"
proof -
  have h1: "AwaitStopped_call Background \<in>
      set (fst (Run example_world (WithDeadline Background 20) example_engine))"
    by code_simp
  have h2: "done_at (WithTimeout 10 Background 30) = Some (40, DeadlineExceeded)"
    by (simp add: WithTimeout_def)
  have h3: "\<forall>t. stopped_at example_world = Some t \<longrightarrow> 40 < t"
    by (simp add: example_world_def)
  have r: "first_failure example_world (ServicesByState_Failed example_world) =
      Some (ErrorString ''dns lookup failed'')"
    by code_simp
  have h4: "stopped_at example_world = Some 50"
    by (simp add: example_world_def)
  from Run_await_has_no_timeout [OF h1 h2 h3, of "''System signal: interrupt''"] h1 h2 h4 r
  show ?thesis by simp
qed

subsection \<open>An empty service set\<close>



subsection \<open>The edges of registered modules\<close>



subsection \<open>Enabled modules\<close>

text \<open>
  C7. \<^verbatim>\<open>IsModuleEnabled(name)\<close> is true exactly when \<open>name\<close> occurs in the target list, and
  the target list is the one the engine was created with: neither a registration nor
  \<^verbatim>\<open>Run\<close> changes it. So a module that has a service only because a target requires it is
  not reported as enabled.
\<close>

theorem IsModuleEnabled_iff_requested:
  "(IsModuleEnabled name m \<longleftrightarrow> name \<in> set (targets m))
   \<and> targets (New ts) = ts
   \<and> targets (RegisterModule n fn m) = targets m
   \<and> targets (RegisterInvisibleModule n fn m) = targets m
   \<and> targets (snd (snd (Run w ctx m))) = targets m"
proof -
  have "stringsContain vs name \<longleftrightarrow> name \<in> set vs" for vs
    by (induction vs) auto
  then have a: "IsModuleEnabled name m \<longleftrightarrow> name \<in> set (targets m)"
    by (simp add: IsModuleEnabled_def)
  have b: "targets (snd (snd (Run w ctx m))) = targets m"
    by (auto simp: Run_def Let_def split: prod.splits option.splits sum.splits outcome.splits)
  from a b show ?thesis
    by (simp add: New_def RegisterModule_def RegisterInvisibleModule_def)
qed

theorem IsModuleEnabled_iff_requested_witness:
  "IsModuleEnabled SearchServerRing example_running
   \<and> MemberlistKV \<in> fst ` set (serviceMap example_running)
   \<and> \<not> IsModuleEnabled MemberlistKV example_running"
proof -
  have t: "targets example_running = [SearchServerRing]"
    unfolding example_running_def
    using IsModuleEnabled_iff_requested [of SearchServerRing example_engine "[SearchServerRing]"
        SearchServerRing "Inr 3" example_world Background]
    by (simp add: example_engine_def RegisterModule_def RegisterInvisibleModule_def New_def)
  have s: "MemberlistKV \<in> fst ` set (serviceMap example_running)"
    by code_simp
  have n: "MemberlistKV \<noteq> SearchServerRing" by (simp add: module_names)
  from IsModuleEnabled_iff_requested [of SearchServerRing example_running]
    IsModuleEnabled_iff_requested [of MemberlistKV example_running] t s n
  show ?thesis by simp
qed

subsection \<open>Registering a name twice\<close>




subsection \<open>The dependency table has no cycle\<close>

text \<open>
  C9. For every set of module names, the edges of the static dependency table between
  modules of the set form no cycle: no module reaches itself along one or more edges. The
  set of all names gives the table itself.
\<close>

theorem dependencyMap_acyclic: "acyclic (edges_within S dependencyMap)"
proof -
  have sub: "(edges_within S dependencyMap)\<inverse> \<subseteq> measure height"
    by (auto simp: edges_within_def dest: edge_height)
  have "wf ((edges_within S dependencyMap)\<inverse>)"
    by (rule wf_subset [OF wf_measure sub])
  then have "acyclic ((edges_within S dependencyMap)\<inverse>)"
    by (rule wf_acyclic)
  then show ?thesis by (simp only: acyclic_converse)
qed

theorem dependencyMap_acyclic_witness:
  "(StorageServer, StorageServer) \<notin> (edges_within UNIV dependencyMap)\<^sup>+"
  using dependencyMap_acyclic [of UNIV] by (simp add: acyclic_def)

subsection \<open>The shutdown a failure triggers has no deadline\<close>

text \<open>
  C10. Whenever the failure callback fires for a failed service, it begins by calling the
  engine's \<^verbatim>\<open>Shutdown\<close> with the background context, which is never done: every wait of the
  callback is without a deadline, and with a service manager in place it blocks for as long
  as the services have not stopped. The shutdown the signal handler calls carries a
  deadline, 30 seconds after the signal at the latest.
\<close>

theorem Failure_shutdown_has_no_deadline:
  assumes cause: "FailureCase w svc = Some cause"
  shows "(\<exists>rest. fst (Failure w m svc) = Shutdown_call Background (err_Error cause) # rest)
       \<and> (\<forall>c x. Shutdown_call c x \<in> set (fst (Failure w m svc)) \<longrightarrow> done_at c = None)
       \<and> (\<forall>c. AwaitStopped_call c \<in> set (fst (Failure w m svc)) \<longrightarrow> done_at c = None)
       \<and> (serviceManager m \<noteq> None \<longrightarrow>
            AwaitStopped_call Background \<in> set (fst (Failure w m svc))
            \<and> (stopped_at w = None \<longrightarrow> snd (Failure w m svc) = Blocks))
       \<and> (\<forall>c x. Shutdown_call c x \<in> set (fst (on_signal w now ctx sig m)) \<longrightarrow>
            (\<exists>t e. done_at c = Some (t, e) \<and> t \<le> now + 30))"
proof -
  obtain evs r where s: "Shutdown w Background (err_Error cause) m = (evs, r)"
    by (cases "Shutdown w Background (err_Error cause) m") auto
  note ev = Shutdown_events [OF s]
  obtain l msg fs where lf: "log_failed (serviceMap m) svc cause = Log l msg fs"
    using log_failed_is_Log by blast
  have a: "\<exists>rest. fst (Failure w m svc) = Shutdown_call Background (err_Error cause) # rest"
    using cause s by (auto simp: Failure_def split: outcome.splits)
  have b: "\<forall>c x. Shutdown_call c x \<in> set (fst (Failure w m svc)) \<longrightarrow> done_at c = None"
    using cause s ev lf by (auto simp: Failure_def split: outcome.splits option.splits)
  have c: "\<forall>c. AwaitStopped_call c \<in> set (fst (Failure w m svc)) \<longrightarrow> done_at c = None"
    using cause s ev lf by (auto simp: Failure_def split: outcome.splits option.splits)
  have d: "serviceManager m \<noteq> None \<longrightarrow>
            AwaitStopped_call Background \<in> set (fst (Failure w m svc))
            \<and> (stopped_at w = None \<longrightarrow> snd (Failure w m svc) = Blocks)"
    using cause
    by (auto simp: Failure_def Shutdown_with_manager AwaitStopped_Background
        split: outcome.splits option.splits)
  obtain evs' r' where
    s': "Shutdown w (WithTimeout now ctx 30) (''System signal: '' @ sig) m = (evs', r')"
    by (cases "Shutdown w (WithTimeout now ctx 30) (''System signal: '' @ sig) m") auto
  have e: "\<forall>c x. Shutdown_call c x \<in> set (fst (on_signal w now ctx sig m)) \<longrightarrow>
            (\<exists>t e. done_at c = Some (t, e) \<and> t \<le> now + 30)"
    using s' Shutdown_events [OF s'] done_at_WithDeadline [of ctx "now + 30"]
    by (auto simp: on_signal_def Let_def WithTimeout_def split: outcome.splits option.splits)
  from a b c d e show ?thesis by blast
qed

theorem Failure_shutdown_has_no_deadline_witness:
  "FailureCase example_stuck 3 = Some (ErrorString ''dns lookup failed'')
   \<and> Failure example_stuck example_running 3 =
       ([Shutdown_call Background ''dns lookup failed'', StopAsync_call,
         Log LvlInfo ''Awaiting services to be stopped...'' [(''reason'', ''dns lookup failed'')],
         AwaitStopped_call Background], Blocks)
   \<and> done_at Background = None
   \<and> Shutdown_call (WithDeadline Background 40) ''System signal: interrupt'' \<in>
       set (fst (on_signal example_stuck 10 Background ''interrupt'' example_running))
   \<and> (\<exists>t e. done_at (WithDeadline Background 40) = Some (t, e) \<and> t \<le> 10 + 30)"
proof -
  have g: "Shutdown_call (WithDeadline Background 40) ''System signal: interrupt'' \<in>
       set (fst (on_signal example_stuck 10 Background ''interrupt'' example_running))"
    by code_simp
  have h: "FailureCase example_stuck 3 = Some (ErrorString ''dns lookup failed'')"
    by code_simp
  have f: "Failure example_stuck example_running 3 =
       ([Shutdown_call Background ''dns lookup failed'', StopAsync_call,
         Log LvlInfo ''Awaiting services to be stopped...'' [(''reason'', ''dns lookup failed'')],
         AwaitStopped_call Background], Blocks)"
    by code_simp
  from Failure_shutdown_has_no_deadline [OF h, of example_running 10 Background "''interrupt''"]
  have "\<exists>t e. done_at (WithDeadline Background 40) = Some (t, e) \<and> t \<le> 10 + 30"
    using g by blast
  with h f g show ?thesis by simp
qed

end
